theory Spec2Isabelle
  imports Complex_Main "HOL-Library.Multiset"
begin

section \<open>The stored data\<close>

text \<open>
  \<^verbatim>\<open>app.py\<close> keeps two SQLite tables, created by \<^verbatim>\<open>init_db\<close>:
  \<^verbatim>\<open>clientes (id INTEGER PRIMARY KEY AUTOINCREMENT, nome TEXT NOT NULL, email TEXT, telefone TEXT)\<close>
  and
  \<^verbatim>\<open>pedidos (id INTEGER PRIMARY KEY AUTOINCREMENT, cliente_id INTEGER NOT NULL,
  produto TEXT NOT NULL, valor REAL NOT NULL, data TEXT NOT NULL,
  FOREIGN KEY (cliente_id) REFERENCES clientes(id) ON DELETE CASCADE)\<close>.
  A row is a record with one field per column; a nullable TEXT column is a
  \<open>string option\<close> (Python's \<^verbatim>\<open>None\<close> is \<open>None\<close>). Python ints are \<open>int\<close>.
\<close>

text \<open>
  A Python \<^verbatim>\<open>float\<close>: a number, an infinity, or NaN. No arithmetic is done on it; the
  REAL column stores the value it is given.
\<close>

datatype pyfloat = Finite real | PosInf | NegInf | NaN

record cliente =
  c_id :: int
  c_nome :: string
  c_email :: "string option"
  c_telefone :: "string option"

record pedido =
  p_id :: int
  p_cliente_id :: int
  p_produto :: string
  p_valor :: pyfloat
  p_data :: string

text \<open>
  The database file: the rows of both tables, and for each table the counter that
  \<^verbatim>\<open>AUTOINCREMENT\<close> keeps in \<^verbatim>\<open>sqlite_sequence\<close> (the largest rowid the table ever
  held; 0 while the table has no entry there).
\<close>

record database =
  clientes :: "cliente list"
  pedidos :: "pedido list"
  seq_clientes :: int
  seq_pedidos :: int

text \<open>
  The row that \<^verbatim>\<open>list_orders_with_clients\<close> selects:
  \<^verbatim>\<open>p.id, p.produto, p.valor, p.data, c.id, c.nome, c.email, c.telefone\<close>.
\<close>

record pedido_cliente =
  j_pedido_id :: int
  j_produto :: string
  j_valor :: pyfloat
  j_data :: string
  j_cliente_id :: int
  j_cliente_nome :: string
  j_cliente_email :: "string option"
  j_cliente_telefone :: "string option"

text \<open>The exceptions that \<^verbatim>\<open>cur.execute\<close> raises in the statements below.\<close>

datatype error = IntegrityError | OverflowError

section \<open>Connections and transactions\<close>

text \<open>
  A connection works on a private copy of the file inside its transaction;
  \<^verbatim>\<open>commit\<close> writes the copy back, and closing the connection leaves the file as last
  committed. SQLite enforces foreign keys only on a connection that has run
  \<^verbatim>\<open>PRAGMA foreign_keys = ON\<close>; \<^verbatim>\<open>get_conn\<close> returns \<^verbatim>\<open>sqlite3.connect(DB_PATH)\<close>
  as it is, so the flag has its default, off.
\<close>

record connection =
  foreign_keys :: bool
  committed :: database
  working :: database

definition connect :: "database \<Rightarrow> connection" where
  "connect file = \<lparr>foreign_keys = False, committed = file, working = file\<rparr>"

definition get_conn :: "database \<Rightarrow> connection" where
  "get_conn file = connect file"

definition commit :: "connection \<Rightarrow> connection" where
  "commit conn = conn\<lparr>committed := working conn\<rparr>"

definition close :: "connection \<Rightarrow> database" where
  "close conn = committed conn"

text \<open>
  Binding a Python int to a statement parameter converts it to SQLite's signed 64-bit
  integer; an int outside that range raises \<^verbatim>\<open>OverflowError\<close> before the statement
  runs. The statements that write a caller's id into a row or report a row count for it
  (\<open>insert_pedido\<close>, \<open>update_cliente\<close>, \<open>update_pedido\<close>) have this branch; the
  deletes and the lookups by id are written for ids within the range.
\<close>

definition int64 :: "int \<Rightarrow> bool" where
  "int64 i = (- (2 ^ 63) \<le> i \<and> i < 2 ^ 63)"

definition fetchone :: "'r list \<Rightarrow> 'r option" where
  "fetchone rows = (case rows of [] \<Rightarrow> None | r # _ \<Rightarrow> Some r)"

section \<open>The SQL statements\<close>

text \<open>
  An \<^verbatim>\<open>AUTOINCREMENT\<close> table gives a new row the rowid one above the largest rowid
  the table has ever held: the larger of its \<^verbatim>\<open>sqlite_sequence\<close> entry and the
  rowids now present.
\<close>

definition next_rowid :: "int \<Rightarrow> int list \<Rightarrow> int" where
  "next_rowid seq ids = fold max ids seq + 1"

text \<open>\<^verbatim>\<open>INSERT INTO clientes (nome, email, telefone) VALUES (?, ?, ?)\<close>; returns \<^verbatim>\<open>lastrowid\<close>.\<close>

definition insert_cliente ::
  "connection \<Rightarrow> string \<Rightarrow> string option \<Rightarrow> string option \<Rightarrow> int \<times> connection" where
  "insert_cliente conn nome email telefone =
     (let w = working conn;
          rid = next_rowid (seq_clientes w) (map c_id (clientes w));
          row = \<lparr>c_id = rid, c_nome = nome, c_email = email, c_telefone = telefone\<rparr>
      in (rid, conn\<lparr>working := w\<lparr>clientes := clientes w @ [row], seq_clientes := rid\<rparr>\<rparr>))"

text \<open>\<^verbatim>\<open>SELECT id, nome, email, telefone FROM clientes ORDER BY id\<close>\<close>

definition select_clientes :: "connection \<Rightarrow> cliente list" where
  "select_clientes conn = sort_key c_id (clientes (working conn))"

text \<open>\<^verbatim>\<open>SELECT id, nome, email, telefone FROM clientes WHERE id = ?\<close>\<close>

definition select_cliente_where_id :: "connection \<Rightarrow> int \<Rightarrow> cliente list" where
  "select_cliente_where_id conn i = filter (\<lambda>c. c_id c = i) (clientes (working conn))"

text \<open>
  \<^verbatim>\<open>UPDATE clientes SET nome = ?, email = ?, telefone = ? WHERE id = ?\<close>; returns
  \<^verbatim>\<open>rowcount\<close>, the number of rows the WHERE clause matched. An id outside the
  64-bit range raises \<^verbatim>\<open>OverflowError\<close>.
\<close>

definition update_cliente ::
  "connection \<Rightarrow> string \<Rightarrow> string option \<Rightarrow> string option \<Rightarrow> int \<Rightarrow>
     error + int \<times> connection" where
  "update_cliente conn nome email telefone i =
     (if \<not> int64 i then Inl OverflowError
      else
        let w = working conn;
            hit = filter (\<lambda>c. c_id c = i) (clientes w);
            rows = map (\<lambda>c. if c_id c = i
                             then c\<lparr>c_nome := nome, c_email := email, c_telefone := telefone\<rparr>
                             else c) (clientes w)
        in Inr (int (length hit), conn\<lparr>working := w\<lparr>clientes := rows\<rparr>\<rparr>))"

text \<open>
  \<^verbatim>\<open>DELETE FROM clientes WHERE id = ?\<close>; returns \<^verbatim>\<open>rowcount\<close>. The schema's
  \<^verbatim>\<open>ON DELETE CASCADE\<close> removes the orders of a deleted client, on a connection
  that enforces foreign keys.
\<close>

definition delete_cliente :: "connection \<Rightarrow> int \<Rightarrow> int \<times> connection" where
  "delete_cliente conn i =
     (let w = working conn;
          hit = filter (\<lambda>c. c_id c = i) (clientes w);
          rows = filter (\<lambda>c. c_id c \<noteq> i) (clientes w);
          orders = (if foreign_keys conn \<and> hit \<noteq> []
                    then filter (\<lambda>p. p_cliente_id p \<noteq> i) (pedidos w)
                    else pedidos w)
      in (int (length hit), conn\<lparr>working := w\<lparr>clientes := rows, pedidos := orders\<rparr>\<rparr>))"

text \<open>
  \<^verbatim>\<open>INSERT INTO pedidos (cliente_id, produto, valor, data) VALUES (?, ?, ?, ?)\<close>. A
  \<^verbatim>\<open>cliente_id\<close> outside the 64-bit range raises \<^verbatim>\<open>OverflowError\<close>. SQLite stores a
  NaN as NULL, which \<^verbatim>\<open>valor REAL NOT NULL\<close> rejects with \<^verbatim>\<open>sqlite3.IntegrityError\<close>.
  On a connection that enforces foreign keys, a \<^verbatim>\<open>cliente_id\<close> with no row in
  \<^verbatim>\<open>clientes\<close> raises \<^verbatim>\<open>sqlite3.IntegrityError\<close> too.
\<close>

definition insert_pedido ::
  "connection \<Rightarrow> int \<Rightarrow> string \<Rightarrow> pyfloat \<Rightarrow> string \<Rightarrow> error + int \<times> connection" where
  "insert_pedido conn cliente_id produto valor data =
     (let w = working conn in
      if \<not> int64 cliente_id then Inl OverflowError
      else if valor = NaN then Inl IntegrityError
      else if foreign_keys conn \<and> cliente_id \<notin> set (map c_id (clientes w))
      then Inl IntegrityError
      else
        let rid = next_rowid (seq_pedidos w) (map p_id (pedidos w));
            row = \<lparr>p_id = rid, p_cliente_id = cliente_id, p_produto = produto,
                   p_valor = valor, p_data = data\<rparr>
        in Inr (rid, conn\<lparr>working := w\<lparr>pedidos := pedidos w @ [row], seq_pedidos := rid\<rparr>\<rparr>))"

text \<open>\<^verbatim>\<open>SELECT id, cliente_id, produto, valor, data FROM pedidos ORDER BY id\<close>\<close>

definition select_pedidos :: "connection \<Rightarrow> pedido list" where
  "select_pedidos conn = sort_key p_id (pedidos (working conn))"

text \<open>\<^verbatim>\<open>SELECT id, cliente_id, produto, valor, data FROM pedidos WHERE id = ?\<close>\<close>

definition select_pedido_where_id :: "connection \<Rightarrow> int \<Rightarrow> pedido list" where
  "select_pedido_where_id conn i = filter (\<lambda>p. p_id p = i) (pedidos (working conn))"

text \<open>
  \<^verbatim>\<open>UPDATE pedidos SET cliente_id = ?, produto = ?, valor = ?, data = ? WHERE id = ?\<close>.
  An id or a \<^verbatim>\<open>cliente_id\<close> outside the 64-bit range raises \<^verbatim>\<open>OverflowError\<close>.
  The constraints are checked on the rows that are updated: with a matched row, a NaN
  \<^verbatim>\<open>valor\<close> raises \<^verbatim>\<open>sqlite3.IntegrityError\<close>, and so does, on a connection that
  enforces foreign keys, a new \<^verbatim>\<open>cliente_id\<close> with no row in \<^verbatim>\<open>clientes\<close>.
\<close>

definition update_pedido ::
  "connection \<Rightarrow> int \<Rightarrow> string \<Rightarrow> pyfloat \<Rightarrow> string \<Rightarrow> int \<Rightarrow> error + int \<times> connection" where
  "update_pedido conn cliente_id produto valor data i =
     (let w = working conn;
          hit = filter (\<lambda>p. p_id p = i) (pedidos w)
      in if \<not> int64 cliente_id \<or> \<not> int64 i then Inl OverflowError
         else if hit \<noteq> [] \<and> valor = NaN then Inl IntegrityError
         else if foreign_keys conn \<and> hit \<noteq> [] \<and> cliente_id \<notin> set (map c_id (clientes w))
         then Inl IntegrityError
         else
           let rows = map (\<lambda>p. if p_id p = i
                                then p\<lparr>p_cliente_id := cliente_id, p_produto := produto,
                                       p_valor := valor, p_data := data\<rparr>
                                else p) (pedidos w)
           in Inr (int (length hit), conn\<lparr>working := w\<lparr>pedidos := rows\<rparr>\<rparr>))"

text \<open>\<^verbatim>\<open>DELETE FROM pedidos WHERE id = ?\<close>\<close>

definition delete_pedido :: "connection \<Rightarrow> int \<Rightarrow> int \<times> connection" where
  "delete_pedido conn i =
     (let w = working conn;
          hit = filter (\<lambda>p. p_id p = i) (pedidos w);
          rows = filter (\<lambda>p. p_id p \<noteq> i) (pedidos w)
      in (int (length hit), conn\<lparr>working := w\<lparr>pedidos := rows\<rparr>\<rparr>))"

text \<open>
  \<^verbatim>\<open>SELECT p.id, p.produto, p.valor, p.data, c.id, c.nome, c.email, c.telefone
  FROM pedidos p JOIN clientes c ON p.cliente_id = c.id ORDER BY p.id\<close>
\<close>

definition join_row :: "pedido \<Rightarrow> cliente \<Rightarrow> pedido_cliente" where
  "join_row p c =
     \<lparr>j_pedido_id = p_id p, j_produto = p_produto p, j_valor = p_valor p, j_data = p_data p,
      j_cliente_id = c_id c, j_cliente_nome = c_nome c, j_cliente_email = c_email c,
      j_cliente_telefone = c_telefone c\<rparr>"

definition select_pedidos_join_clientes :: "connection \<Rightarrow> pedido_cliente list" where
  "select_pedidos_join_clientes conn =
     (let w = working conn in
      concat (map (\<lambda>p. map (join_row p) (filter (\<lambda>c. p_cliente_id p = c_id c) (clientes w)))
                  (sort_key p_id (pedidos w))))"

section \<open>The data-access functions of app.py\<close>

text \<open>
  Each function takes the database file and returns its result with the file as
  the call leaves it. A call that raises returns \<open>Inl\<close> of the error: its
  transaction was never committed, so the file stays as it was.
\<close>

definition empty_database :: database where
  "empty_database = \<lparr>clientes = [], pedidos = [], seq_clientes = 0, seq_pedidos = 0\<rparr>"

text \<open>
  \<^verbatim>\<open>init_db\<close>: both statements are \<^verbatim>\<open>CREATE TABLE IF NOT EXISTS\<close>. A file without the
  tables (\<open>None\<close>) gets them, empty; a file that has them is left as it is.
\<close>

definition init_db :: "database option \<Rightarrow> database" where
  "init_db file = (case file of None \<Rightarrow> empty_database | Some d \<Rightarrow> d)"

definition add_client ::
  "database \<Rightarrow> string \<Rightarrow> string option \<Rightarrow> string option \<Rightarrow> int \<times> database" where
  "add_client file nome email telefone =
     (let conn = get_conn file;
          (lastrowid, conn) = insert_cliente conn nome email telefone;
          conn = commit conn;
          client_id = lastrowid
      in (client_id, close conn))"

definition get_clients :: "database \<Rightarrow> cliente list \<times> database" where
  "get_clients file =
     (let conn = get_conn file;
          rows = select_clientes conn
      in (rows, close conn))"

definition get_client_by_id :: "database \<Rightarrow> int \<Rightarrow> cliente option \<times> database" where
  "get_client_by_id file client_id =
     (let conn = get_conn file;
          row = fetchone (select_cliente_where_id conn client_id)
      in (row, close conn))"

definition update_client ::
  "database \<Rightarrow> int \<Rightarrow> string \<Rightarrow> string option \<Rightarrow> string option \<Rightarrow>
     error + bool \<times> database" where
  "update_client file client_id nome email telefone =
     (let conn = get_conn file in
      case update_cliente conn nome email telefone client_id of
        Inl e \<Rightarrow> Inl e
      | Inr (rowcount, conn) \<Rightarrow>
          let conn = commit conn;
              changed = rowcount > 0
          in Inr (changed, close conn))"

definition delete_client :: "database \<Rightarrow> int \<Rightarrow> bool \<times> database" where
  "delete_client file client_id =
     (let conn = get_conn file;
          (rowcount, conn) = delete_cliente conn client_id;
          conn = commit conn;
          changed = rowcount > 0
      in (changed, close conn))"

definition add_order ::
  "database \<Rightarrow> int \<Rightarrow> string \<Rightarrow> pyfloat \<Rightarrow> string \<Rightarrow> error + int \<times> database" where
  "add_order file cliente_id produto valor data =
     (let conn = get_conn file in
      case insert_pedido conn cliente_id produto valor data of
        Inl e \<Rightarrow> Inl e
      | Inr (lastrowid, conn) \<Rightarrow>
          let conn = commit conn;
              order_id = lastrowid
          in Inr (order_id, close conn))"

definition get_orders :: "database \<Rightarrow> pedido list \<times> database" where
  "get_orders file =
     (let conn = get_conn file;
          rows = select_pedidos conn
      in (rows, close conn))"

definition get_order_by_id :: "database \<Rightarrow> int \<Rightarrow> pedido option \<times> database" where
  "get_order_by_id file order_id =
     (let conn = get_conn file;
          row = fetchone (select_pedido_where_id conn order_id)
      in (row, close conn))"

definition update_order ::
  "database \<Rightarrow> int \<Rightarrow> int \<Rightarrow> string \<Rightarrow> pyfloat \<Rightarrow> string \<Rightarrow> error + bool \<times> database" where
  "update_order file order_id cliente_id produto valor data =
     (let conn = get_conn file in
      case update_pedido conn cliente_id produto valor data order_id of
        Inl e \<Rightarrow> Inl e
      | Inr (rowcount, conn) \<Rightarrow>
          let conn = commit conn;
              changed = rowcount > 0
          in Inr (changed, close conn))"

definition delete_order :: "database \<Rightarrow> int \<Rightarrow> bool \<times> database" where
  "delete_order file order_id =
     (let conn = get_conn file;
          (rowcount, conn) = delete_pedido conn order_id;
          conn = commit conn;
          changed = rowcount > 0
      in (changed, close conn))"

definition list_orders_with_clients :: "database \<Rightarrow> pedido_cliente list \<times> database" where
  "list_orders_with_clients file =
     (let conn = get_conn file;
          rows = select_pedidos_join_clientes conn
      in (rows, close conn))"

section \<open>Sequences of calls\<close>

text \<open>
  A caller such as \<^verbatim>\<open>main_loop\<close> makes one call after another on the same file. A
  history holds the file together with the ids that \<^verbatim>\<open>add_client\<close> and
  \<^verbatim>\<open>add_order\<close> have returned so far, oldest first.
\<close>

datatype call =
    AddClient string "string option" "string option"
  | GetClients
  | GetClientById int
  | UpdateClient int string "string option" "string option"
  | DeleteClient int
  | AddOrder int string pyfloat string
  | GetOrders
  | GetOrderById int
  | UpdateOrder int int string pyfloat string
  | DeleteOrder int
  | ListOrdersWithClients

record history =
  db :: database
  issued_clientes :: "int list"
  issued_pedidos :: "int list"

fun step :: "history \<Rightarrow> call \<Rightarrow> history" where
  "step h (AddClient nome email telefone) =
     (let (i, d) = add_client (db h) nome email telefone
      in h\<lparr>db := d, issued_clientes := issued_clientes h @ [i]\<rparr>)"
| "step h GetClients = h\<lparr>db := snd (get_clients (db h))\<rparr>"
| "step h (GetClientById i) = h\<lparr>db := snd (get_client_by_id (db h) i)\<rparr>"
| "step h (UpdateClient i nome email telefone) =
     (case update_client (db h) i nome email telefone of
        Inl e \<Rightarrow> h
      | Inr (b, d) \<Rightarrow> h\<lparr>db := d\<rparr>)"
| "step h (DeleteClient i) = h\<lparr>db := snd (delete_client (db h) i)\<rparr>"
| "step h (AddOrder cliente_id produto valor data) =
     (case add_order (db h) cliente_id produto valor data of
        Inl e \<Rightarrow> h
      | Inr (i, d) \<Rightarrow> h\<lparr>db := d, issued_pedidos := issued_pedidos h @ [i]\<rparr>)"
| "step h GetOrders = h\<lparr>db := snd (get_orders (db h))\<rparr>"
| "step h (GetOrderById i) = h\<lparr>db := snd (get_order_by_id (db h) i)\<rparr>"
| "step h (UpdateOrder i cliente_id produto valor data) =
     (case update_order (db h) i cliente_id produto valor data of
        Inl e \<Rightarrow> h
      | Inr (b, d) \<Rightarrow> h\<lparr>db := d\<rparr>)"
| "step h (DeleteOrder i) = h\<lparr>db := snd (delete_order (db h) i)\<rparr>"
| "step h ListOrdersWithClients = h\<lparr>db := snd (list_orders_with_clients (db h))\<rparr>"

definition start :: history where
  "start = \<lparr>db = init_db None, issued_clientes = [], issued_pedidos = []\<rparr>"

definition run :: "call list \<Rightarrow> history" where
  "run cs = foldl step start cs"

fun is_read :: "call \<Rightarrow> bool" where
  "is_read GetClients = True"
| "is_read (GetClientById i) = True"
| "is_read GetOrders = True"
| "is_read (GetOrderById i) = True"
| "is_read ListOrdersWithClients = True"
| "is_read c = False"

section \<open>Invariants of the stored state\<close>

text \<open>
  \<^verbatim>\<open>id INTEGER PRIMARY KEY\<close>: no two rows of a table share an id. SQLite enforces
  primary keys on every connection.
\<close>

definition primary_keys :: "database \<Rightarrow> bool" where
  "primary_keys d = (distinct (map c_id (clientes d)) \<and> distinct (map p_id (pedidos d)))"

text \<open>
  What every history keeps: the primary keys, no id (stored or returned) above its
  table's sequence counter, and the returned ids in strictly ascending order.
\<close>

definition consistent :: "history \<Rightarrow> bool" where
  "consistent h =
     (primary_keys (db h) \<and>
      list_all (\<lambda>c. c_id c \<le> seq_clientes (db h)) (clientes (db h)) \<and>
      list_all (\<lambda>p. p_id p \<le> seq_pedidos (db h)) (pedidos (db h)) \<and>
      list_all (\<lambda>i. i \<le> seq_clientes (db h)) (issued_clientes h) \<and>
      list_all (\<lambda>i. i \<le> seq_pedidos (db h)) (issued_pedidos h) \<and>
      sorted_wrt (<) (issued_clientes h) \<and>
      sorted_wrt (<) (issued_pedidos h))"

section \<open>What each call computes\<close>

lemma fold_max_ge: "a \<le> fold max xs (a::int)"
  by (induction xs arbitrary: a) (auto intro: order_trans [OF max.cobounded2])

lemma fold_max_mem: "x \<in> set xs \<Longrightarrow> x \<le> fold max xs (a::int)"
proof (induction xs arbitrary: a)
  case Nil
  then show ?case by simp
next
  case (Cons y ys)
  show ?case
  proof (cases "x = y")
    case True
    have "y \<le> max y a" by simp
    also have "\<dots> \<le> fold max ys (max y a)" by (rule fold_max_ge)
    finally show ?thesis using True by simp
  next
    case False
    with Cons show ?thesis by simp
  qed
qed

lemma next_rowid_gt_seq: "seq < next_rowid seq ids"
  using fold_max_ge [of seq ids] by (simp add: next_rowid_def)

lemma next_rowid_gt_mem: "x \<in> set ids \<Longrightarrow> x < next_rowid seq ids"
  using fold_max_mem [of x ids seq] by (simp add: next_rowid_def)

lemma add_client_eq:
  "add_client d n e t =
     (next_rowid (seq_clientes d) (map c_id (clientes d)),
      d\<lparr>clientes := clientes d @
           [\<lparr>c_id = next_rowid (seq_clientes d) (map c_id (clientes d)), c_nome = n,
             c_email = e, c_telefone = t\<rparr>],
        seq_clientes := next_rowid (seq_clientes d) (map c_id (clientes d))\<rparr>)"
  by (simp add: add_client_def get_conn_def connect_def insert_cliente_def commit_def
      close_def Let_def)

lemma get_clients_eq: "get_clients d = (sort_key c_id (clientes d), d)"
  by (simp add: get_clients_def get_conn_def connect_def select_clientes_def close_def)

lemma get_client_by_id_eq:
  "get_client_by_id d i = (fetchone (filter (\<lambda>c. c_id c = i) (clientes d)), d)"
  by (simp add: get_client_by_id_def get_conn_def connect_def select_cliente_where_id_def
      close_def)

lemma update_client_eq:
  "update_client d i n e t =
     (if int64 i
      then Inr (filter (\<lambda>c. c_id c = i) (clientes d) \<noteq> [],
        d\<lparr>clientes := map (\<lambda>c. if c_id c = i
                                 then c\<lparr>c_nome := n, c_email := e, c_telefone := t\<rparr>
                                 else c) (clientes d)\<rparr>)
      else Inl OverflowError)"
  by (simp add: update_client_def get_conn_def connect_def update_cliente_def commit_def
      close_def Let_def)

lemma delete_client_eq:
  "delete_client d i =
     (filter (\<lambda>c. c_id c = i) (clientes d) \<noteq> [],
      d\<lparr>clientes := filter (\<lambda>c. c_id c \<noteq> i) (clientes d)\<rparr>)"
  by (simp add: delete_client_def get_conn_def connect_def delete_cliente_def commit_def
      close_def Let_def)

lemma add_order_eq:
  "add_order d c p v dt =
     (if \<not> int64 c then Inl OverflowError
      else if v = NaN then Inl IntegrityError
      else Inr (next_rowid (seq_pedidos d) (map p_id (pedidos d)),
        d\<lparr>pedidos := pedidos d @
             [\<lparr>p_id = next_rowid (seq_pedidos d) (map p_id (pedidos d)), p_cliente_id = c,
               p_produto = p, p_valor = v, p_data = dt\<rparr>],
          seq_pedidos := next_rowid (seq_pedidos d) (map p_id (pedidos d))\<rparr>))"
  by (simp add: add_order_def get_conn_def connect_def insert_pedido_def commit_def
      close_def Let_def)

lemma get_orders_eq: "get_orders d = (sort_key p_id (pedidos d), d)"
  by (simp add: get_orders_def get_conn_def connect_def select_pedidos_def close_def)

lemma get_order_by_id_eq:
  "get_order_by_id d i = (fetchone (filter (\<lambda>p. p_id p = i) (pedidos d)), d)"
  by (simp add: get_order_by_id_def get_conn_def connect_def select_pedido_where_id_def
      close_def)

lemma update_order_eq:
  "update_order d i c p v dt =
     (if \<not> int64 c \<or> \<not> int64 i then Inl OverflowError
      else if filter (\<lambda>p. p_id p = i) (pedidos d) \<noteq> [] \<and> v = NaN then Inl IntegrityError
      else Inr (filter (\<lambda>p. p_id p = i) (pedidos d) \<noteq> [],
        d\<lparr>pedidos := map (\<lambda>r. if p_id r = i
                                then r\<lparr>p_cliente_id := c, p_produto := p, p_valor := v,
                                       p_data := dt\<rparr>
                                else r) (pedidos d)\<rparr>))"
  by (simp add: update_order_def get_conn_def connect_def update_pedido_def commit_def
      close_def Let_def)

lemma delete_order_eq:
  "delete_order d i =
     (filter (\<lambda>p. p_id p = i) (pedidos d) \<noteq> [],
      d\<lparr>pedidos := filter (\<lambda>p. p_id p \<noteq> i) (pedidos d)\<rparr>)"
  by (simp add: delete_order_def get_conn_def connect_def delete_pedido_def commit_def
      close_def Let_def)

lemma list_orders_with_clients_eq:
  "list_orders_with_clients d =
     (concat (map (\<lambda>p. map (join_row p) (filter (\<lambda>c. p_cliente_id p = c_id c) (clientes d)))
                  (sort_key p_id (pedidos d))), d)"
  by (simp add: list_orders_with_clients_def get_conn_def connect_def
      select_pedidos_join_clientes_def close_def)

section \<open>Every history is consistent\<close>

lemma update_keeps_c_id:
  "map c_id (map (\<lambda>c. if c_id c = i then c\<lparr>c_nome := n, c_email := e, c_telefone := t\<rparr> else c) xs)
     = map c_id xs"
  by (induction xs) auto

lemma update_keeps_p_id:
  "map p_id (map (\<lambda>r. if p_id r = i
                        then r\<lparr>p_cliente_id := c, p_produto := p, p_valor := v, p_data := dt\<rparr>
                        else r) xs)
     = map p_id xs"
  by (induction xs) auto

lemma update_comp_c_id:
  "c_id \<circ> (\<lambda>c. if c_id c = i then c\<lparr>c_nome := n, c_email := e, c_telefone := t\<rparr> else c) = c_id"
  by (rule ext) simp

lemma update_comp_p_id:
  "p_id \<circ> (\<lambda>r. if p_id r = i
                   then r\<lparr>p_cliente_id := c, p_produto := p, p_valor := v, p_data := dt\<rparr>
                   else r) = p_id"
  by (rule ext) simp

lemma list_all_le_mono: "list_all (\<lambda>x. f x \<le> (a::int)) xs \<Longrightarrow> a \<le> b \<Longrightarrow> list_all (\<lambda>x. f x \<le> b) xs"
  by (induction xs) auto

lemma list_all_le_map:
  "list_all (\<lambda>x. f x \<le> (a::int)) xs \<Longrightarrow> map f ys = map f xs \<Longrightarrow> list_all (\<lambda>x. f x \<le> a) ys"
proof -
  assume a: "list_all (\<lambda>x. f x \<le> a) xs" and m: "map f ys = map f xs"
  have "list_all (\<lambda>v. v \<le> a) (map f xs)" using a by (simp add: list_all_iff)
  then have "list_all (\<lambda>v. v \<le> a) (map f ys)" using m by simp
  then show ?thesis by (simp add: list_all_iff)
qed

lemma next_rowid_not_stored:
  "list_all (\<lambda>x. f x \<le> seq) xs \<Longrightarrow> next_rowid seq (map f xs) \<notin> f ` set xs"
  using next_rowid_gt_seq [of seq "map f xs"] by (auto simp: list_all_iff)

lemma sorted_snoc_next:
  "sorted_wrt (<) is \<Longrightarrow> list_all (\<lambda>i. i \<le> seq) is \<Longrightarrow> sorted_wrt (<) (is @ [next_rowid seq ids])"
  using next_rowid_gt_seq [of seq ids] by (auto simp: sorted_wrt_append list_all_iff)

lemma consistent_start: "consistent start"
  by (simp add: consistent_def primary_keys_def start_def init_db_def empty_database_def)

lemma consistent_add_client:
  assumes "consistent h"
  shows "consistent (step h (AddClient n e t))"
proof -
  let ?r = "next_rowid (seq_clientes (db h)) (map c_id (clientes (db h)))"
  have le: "seq_clientes (db h) \<le> ?r"
    using next_rowid_gt_seq [of "seq_clientes (db h)" "map c_id (clientes (db h))"] by simp
  have fresh: "?r \<notin> c_id ` set (clientes (db h))"
    using assms by (simp add: consistent_def next_rowid_not_stored)
  have st: "list_all (\<lambda>c. c_id c \<le> ?r) (clientes (db h))"
    using assms le by (auto simp: consistent_def intro: list_all_le_mono)
  have iss: "list_all (\<lambda>i. i \<le> ?r) (issued_clientes h)"
    using assms le list_all_le_mono [of "\<lambda>i. i" "seq_clientes (db h)" "issued_clientes h" ?r]
    by (simp add: consistent_def)
  have srt: "sorted_wrt (<) (issued_clientes h @ [?r])"
    using assms by (simp add: consistent_def sorted_snoc_next)
  show ?thesis
    using assms fresh st iss srt
    by (simp add: add_client_eq consistent_def primary_keys_def)
qed

lemma consistent_add_order:
  assumes "consistent h"
  shows "consistent (step h (AddOrder c p v dt))"
proof -
  let ?r = "next_rowid (seq_pedidos (db h)) (map p_id (pedidos (db h)))"
  have le: "seq_pedidos (db h) \<le> ?r"
    using next_rowid_gt_seq [of "seq_pedidos (db h)" "map p_id (pedidos (db h))"] by simp
  have fresh: "?r \<notin> p_id ` set (pedidos (db h))"
    using assms by (simp add: consistent_def next_rowid_not_stored)
  have st: "list_all (\<lambda>c. p_id c \<le> ?r) (pedidos (db h))"
    using assms le by (auto simp: consistent_def intro: list_all_le_mono)
  have iss: "list_all (\<lambda>i. i \<le> ?r) (issued_pedidos h)"
    using assms le list_all_le_mono [of "\<lambda>i. i" "seq_pedidos (db h)" "issued_pedidos h" ?r]
    by (simp add: consistent_def)
  have srt: "sorted_wrt (<) (issued_pedidos h @ [?r])"
    using assms by (simp add: consistent_def sorted_snoc_next)
  show ?thesis
    using assms fresh st iss srt
    by (simp add: add_order_eq consistent_def primary_keys_def)
qed

lemma consistent_update_client:
  assumes "consistent h"
  shows "consistent (step h (UpdateClient i n e t))"
proof -
  have "list_all (\<lambda>c. c_id c \<le> seq_clientes (db h)) (clientes (db h))"
    using assms by (simp add: consistent_def)
  then have "list_all (\<lambda>c. c_id c \<le> seq_clientes (db h))
      (map (\<lambda>c. if c_id c = i then c\<lparr>c_nome := n, c_email := e, c_telefone := t\<rparr> else c)
        (clientes (db h)))"
    by (rule list_all_le_map) (rule update_keeps_c_id)
  then show ?thesis
    using assms
    by (simp add: update_client_eq consistent_def primary_keys_def update_comp_c_id)
qed

lemma consistent_update_order:
  assumes "consistent h"
  shows "consistent (step h (UpdateOrder i c p v dt))"
proof -
  have "list_all (\<lambda>r. p_id r \<le> seq_pedidos (db h)) (pedidos (db h))"
    using assms by (simp add: consistent_def)
  then have "list_all (\<lambda>r. p_id r \<le> seq_pedidos (db h))
      (map (\<lambda>r. if p_id r = i
                  then r\<lparr>p_cliente_id := c, p_produto := p, p_valor := v, p_data := dt\<rparr>
                  else r)
        (pedidos (db h)))"
    by (rule list_all_le_map) (rule update_keeps_p_id)
  then show ?thesis
    using assms
    by (simp add: update_order_eq consistent_def primary_keys_def update_comp_p_id)
qed

lemma consistent_delete_client:
  assumes "consistent h"
  shows "consistent (step h (DeleteClient i))"
  using assms
  by (auto simp: delete_client_eq consistent_def primary_keys_def distinct_map_filter list_all_iff)

lemma consistent_delete_order:
  assumes "consistent h"
  shows "consistent (step h (DeleteOrder i))"
  using assms
  by (auto simp: delete_order_eq consistent_def primary_keys_def distinct_map_filter list_all_iff)

lemma step_read: "is_read c \<Longrightarrow> step h c = h"
  by (cases c)
    (simp_all add: get_clients_eq get_client_by_id_eq get_orders_eq get_order_by_id_eq
      list_orders_with_clients_eq)

lemma consistent_step: "consistent h \<Longrightarrow> consistent (step h c)"
  by (cases c)
    (simp_all only: consistent_add_client consistent_add_order consistent_update_client
      consistent_update_order consistent_delete_client consistent_delete_order
      step_read is_read.simps)

lemma consistent_foldl: "consistent h \<Longrightarrow> consistent (foldl step h cs)"
  by (induction cs arbitrary: h) (simp_all add: consistent_step)

lemma consistent_run: "consistent (run cs)"
  by (simp add: run_def consistent_foldl consistent_start)

section \<open>Fresh ids, and the foreign key\<close>

lemma next_rowid_gt_stored: "x \<in> set xs \<Longrightarrow> f x < next_rowid seq (map f xs)"
  by (rule next_rowid_gt_mem) simp

lemma filter_id_snoc_next:
  "filter (\<lambda>x. f x = next_rowid seq (map f xs)) xs = []"
proof -
  have "f x \<noteq> next_rowid seq (map f xs)" if "x \<in> set xs" for x
    using next_rowid_gt_stored [OF that, of f seq] by simp
  then show ?thesis by (simp add: filter_empty_conv)
qed

lemma next_rowid_not_present: "next_rowid seq (map f xs) \<notin> f ` set xs"
proof
  assume "next_rowid seq (map f xs) \<in> f ` set xs"
  then obtain x where x: "x \<in> set xs" and eq: "next_rowid seq (map f xs) = f x" by auto
  show False using next_rowid_gt_stored [OF x, of f seq] eq by simp
qed

lemma next_rowid_not_issued:
  "list_all (\<lambda>i. i \<le> seq) is \<Longrightarrow> next_rowid seq ids \<notin> set is"
  using next_rowid_gt_seq [of seq ids] by (auto simp: list_all_iff)


text \<open>
  \<^verbatim>\<open>delete_client\<close> runs its statement on a connection from \<^verbatim>\<open>get_conn\<close>, which does
  not enforce foreign keys: the orders stay as they are. The three lemmas after it are
  the statements on a connection that does enforce them, as the schema intends.
\<close>

lemma delete_client_pedidos: "pedidos (snd (delete_client d i)) = pedidos d"
  by (simp add: delete_client_eq)

lemma delete_cliente_enforced:
  "foreign_keys conn \<Longrightarrow> i \<in> c_id ` set (clientes (working conn)) \<Longrightarrow>
   pedidos (working (snd (delete_cliente conn i)))
     = filter (\<lambda>p. p_cliente_id p \<noteq> i) (pedidos (working conn))"
  by (auto simp: delete_cliente_def Let_def filter_empty_conv)

lemma insert_pedido_enforced:
  "foreign_keys conn \<Longrightarrow> int64 c \<Longrightarrow> c \<notin> c_id ` set (clientes (working conn)) \<Longrightarrow>
   insert_pedido conn c p v dt = Inl IntegrityError"
  by (simp add: insert_pedido_def Let_def)

lemma update_pedido_enforced:
  "foreign_keys conn \<Longrightarrow> int64 i \<Longrightarrow> int64 c \<Longrightarrow>
   i \<in> p_id ` set (pedidos (working conn)) \<Longrightarrow>
   c \<notin> c_id ` set (clientes (working conn)) \<Longrightarrow>
   update_pedido conn c p v dt i = Inl IntegrityError"
  by (auto simp: update_pedido_def Let_def filter_empty_conv)

section \<open>The claims\<close>

text \<open>
  C1 (the code departs from it). The claim: deleting a client deletes the client row
  and every order that references it, so that \<^verbatim>\<open>get_orders()\<close> afterwards excludes them.
  On a new database, \<^verbatim>\<open>add_client("Ana", "a@x.com", "111")\<close> returns 1,
  \<^verbatim>\<open>add_order(1, "Widget", 9.99, "2024-01-01")\<close> returns 1 and \<^verbatim>\<open>delete_client(1)\<close>
  returns true; the client is gone, and \<^verbatim>\<open>get_orders()\<close> still returns the order.
\<close>

theorem delete_client_leaves_orders:
  "(let (c, d1) = add_client (init_db None) ''Ana'' (Some ''a@x.com'') (Some ''111'') in
    case add_order d1 c ''Widget'' (Finite (999 / 100)) ''2024-01-01'' of
      Inl e \<Rightarrow> False
    | Inr (oid, d2) \<Rightarrow>
        (let (ok, d3) = delete_client d2 c in
         c = 1 \<and> oid = 1 \<and> ok \<and> fst (get_client_by_id d3 1) = None \<and>
         fst (get_orders d3) =
           [\<lparr>p_id = 1, p_cliente_id = 1, p_produto = ''Widget'', p_valor = Finite (999 / 100),
             p_data = ''2024-01-01''\<rparr>]))"
  by (simp add: init_db_def empty_database_def add_client_eq add_order_eq int64_def delete_client_eq
      get_client_by_id_eq get_orders_eq next_rowid_def fetchone_def)

text \<open>
  C2 (the code departs from it). The claim: \<^verbatim>\<open>add_order\<close> or \<^verbatim>\<open>update_order\<close> with a
  \<^verbatim>\<open>client_id\<close> that references no client fails, and no such order row is stored. On a
  new database, \<^verbatim>\<open>add_order(7, "Widget", 9.99, "2024-01-01")\<close> returns 1 and stores the
  order; \<^verbatim>\<open>update_order(1, 8, "Widget", 9.99, "2024-01-01")\<close> then returns true and
  stores client id 8, with no client in the table.
\<close>

theorem add_order_unknown_client_accepted:
  "add_order (init_db None) 7 ''Widget'' (Finite (999 / 100)) ''2024-01-01'' =
     Inr (1, \<lparr>clientes = [],
               pedidos = [\<lparr>p_id = 1, p_cliente_id = 7, p_produto = ''Widget'',
                           p_valor = Finite (999 / 100), p_data = ''2024-01-01''\<rparr>],
               seq_clientes = 0, seq_pedidos = 1\<rparr>) \<and>
   update_order
     \<lparr>clientes = [],
       pedidos = [\<lparr>p_id = 1, p_cliente_id = 7, p_produto = ''Widget'',
                   p_valor = Finite (999 / 100), p_data = ''2024-01-01''\<rparr>],
       seq_clientes = 0, seq_pedidos = 1\<rparr>
     1 8 ''Widget'' (Finite (999 / 100)) ''2024-01-01'' =
     Inr (True, \<lparr>clientes = [],
               pedidos = [\<lparr>p_id = 1, p_cliente_id = 8, p_produto = ''Widget'',
                           p_valor = Finite (999 / 100), p_data = ''2024-01-01''\<rparr>],
               seq_clientes = 0, seq_pedidos = 1\<rparr>)"
  by (simp add: init_db_def empty_database_def add_order_eq update_order_eq int64_def next_rowid_def)

text \<open>
  C3. After any sequence of calls on a new database, if \<^verbatim>\<open>add_client(nome, email,
  telefone)\<close> returns \<open>i\<close>, then \<^verbatim>\<open>get_client_by_id(i)\<close> returns the row
  \<open>(i, nome, email, telefone)\<close>, and \<open>i\<close> is fresh: no earlier \<^verbatim>\<open>add_client\<close> returned
  it and no stored client has it.
\<close>

theorem add_client_get_client:
  assumes "add_client (db (run cs)) n e t = (i, d)"
  shows "fst (get_client_by_id d i) = Some \<lparr>c_id = i, c_nome = n, c_email = e, c_telefone = t\<rparr> \<and>
         i \<notin> set (issued_clientes (run cs)) \<and>
         i \<notin> c_id ` set (clientes (db (run cs)))"
proof -
  let ?d0 = "db (run cs)"
  have i: "i = next_rowid (seq_clientes ?d0) (map c_id (clientes ?d0))"
    and d: "clientes d = clientes ?d0 @ [\<lparr>c_id = i, c_nome = n, c_email = e, c_telefone = t\<rparr>]"
    using assms by (auto simp: add_client_eq)
  have none: "filter (\<lambda>c. c_id c = i) (clientes ?d0) = []"
    unfolding i by (rule filter_id_snoc_next)
  have get: "fst (get_client_by_id d i) = Some \<lparr>c_id = i, c_nome = n, c_email = e, c_telefone = t\<rparr>"
    by (simp add: get_client_by_id_eq d none fetchone_def)
  have "list_all (\<lambda>j. j \<le> seq_clientes ?d0) (issued_clientes (run cs))"
    using consistent_run [of cs] by (simp add: consistent_def)
  then have iss: "i \<notin> set (issued_clientes (run cs))"
    unfolding i by (rule next_rowid_not_issued)
  have "i \<notin> c_id ` set (clientes ?d0)"
    unfolding i by (rule next_rowid_not_present)
  with get iss show ?thesis by simp
qed

theorem add_client_get_client_witness:
  "add_client (db (run [AddClient ''Ana'' None None, DeleteClient 1])) ''Bia'' (Some ''b@x.com'') None =
     (2, \<lparr>clientes = [\<lparr>c_id = 2, c_nome = ''Bia'', c_email = Some ''b@x.com'', c_telefone = None\<rparr>],
           pedidos = [], seq_clientes = 2, seq_pedidos = 0\<rparr>) \<and>
   fst (get_client_by_id
          \<lparr>clientes = [\<lparr>c_id = 2, c_nome = ''Bia'', c_email = Some ''b@x.com'', c_telefone = None\<rparr>],
            pedidos = [], seq_clientes = 2, seq_pedidos = 0\<rparr> 2) =
     Some \<lparr>c_id = 2, c_nome = ''Bia'', c_email = Some ''b@x.com'', c_telefone = None\<rparr> \<and>
   2 \<notin> set (issued_clientes (run [AddClient ''Ana'' None None, DeleteClient 1]))"
proof -
  have a: "add_client (db (run [AddClient ''Ana'' None None, DeleteClient 1])) ''Bia'' (Some ''b@x.com'') None =
     (2, \<lparr>clientes = [\<lparr>c_id = 2, c_nome = ''Bia'', c_email = Some ''b@x.com'', c_telefone = None\<rparr>],
           pedidos = [], seq_clientes = 2, seq_pedidos = 0\<rparr>)"
    by (simp add: run_def start_def init_db_def empty_database_def add_client_eq
        delete_client_eq next_rowid_def)
  show ?thesis using a add_client_get_client [OF a] by simp
qed




lemma join_rows_set:
  "set (fst (list_orders_with_clients d)) =
     {join_row p c | p c. p \<in> set (pedidos d) \<and> c \<in> set (clientes d) \<and> p_cliente_id p = c_id c}"
  by (auto simp: list_orders_with_clients_eq)

lemma j_pedido_id_join_row: "j_pedido_id (join_row p c) = p_id p"
  by (simp add: join_row_def)

text \<open>
  C5. Every row that \<^verbatim>\<open>list_orders_with_clients()\<close> returns joins a stored order with a
  stored client whose id is the order's \<^verbatim>\<open>cliente_id\<close>; and (ids being primary keys)
  an order whose \<^verbatim>\<open>cliente_id\<close> no client has is in no returned row.
\<close>

theorem list_orders_with_clients_live:
  "(\<forall>r \<in> set (fst (list_orders_with_clients d)).
      \<exists>p \<in> set (pedidos d). \<exists>c \<in> set (clientes d). c_id c = p_cliente_id p \<and> r = join_row p c) \<and>
   (distinct (map p_id (pedidos d)) \<longrightarrow>
      (\<forall>p \<in> set (pedidos d). p_cliente_id p \<notin> c_id ` set (clientes d) \<longrightarrow>
         p_id p \<notin> j_pedido_id ` set (fst (list_orders_with_clients d))))"
proof (intro conjI impI ballI)
  fix r
  assume "r \<in> set (fst (list_orders_with_clients d))"
  then obtain p c where "p \<in> set (pedidos d)" and "c \<in> set (clientes d)"
    and "p_cliente_id p = c_id c" and "r = join_row p c"
    by (auto simp: join_rows_set)
  then show "\<exists>p \<in> set (pedidos d). \<exists>c \<in> set (clientes d). c_id c = p_cliente_id p \<and> r = join_row p c"
    by (intro bexI [of _ p] bexI [of _ c]) simp_all
next
  fix p
  assume dist: "distinct (map p_id (pedidos d))"
    and p: "p \<in> set (pedidos d)"
    and orphan: "p_cliente_id p \<notin> c_id ` set (clientes d)"
  show "p_id p \<notin> j_pedido_id ` set (fst (list_orders_with_clients d))"
  proof
    assume "p_id p \<in> j_pedido_id ` set (fst (list_orders_with_clients d))"
    then obtain q c where q: "q \<in> set (pedidos d)" and c: "c \<in> set (clientes d)"
      and qc: "p_cliente_id q = c_id c" and id: "p_id p = p_id q"
      by (auto simp: join_rows_set j_pedido_id_join_row)
    from dist p q id have "p = q"
      by (auto simp: distinct_map inj_on_def)
    with orphan c qc show False by auto
  qed
qed

theorem list_orders_with_clients_live_witness:
  "fst (list_orders_with_clients
     (db (run [AddClient ''Ana'' (Some ''a@x.com'') (Some ''111''),
               AddOrder 1 ''Widget'' (Finite (999 / 100)) ''2024-01-01'',
               AddOrder 4 ''Mouse'' (Finite 5) ''2024-01-02'']))) =
     [\<lparr>j_pedido_id = 1, j_produto = ''Widget'', j_valor = Finite (999 / 100), j_data = ''2024-01-01'',
       j_cliente_id = 1, j_cliente_nome = ''Ana'', j_cliente_email = Some ''a@x.com'',
       j_cliente_telefone = Some ''111''\<rparr>] \<and>
   2 \<notin> j_pedido_id ` set (fst (list_orders_with_clients
     (db (run [AddClient ''Ana'' (Some ''a@x.com'') (Some ''111''),
               AddOrder 1 ''Widget'' (Finite (999 / 100)) ''2024-01-01'',
               AddOrder 4 ''Mouse'' (Finite 5) ''2024-01-02'']))))"
proof -
  let ?d = "db (run [AddClient ''Ana'' (Some ''a@x.com'') (Some ''111''),
               AddOrder 1 ''Widget'' (Finite (999 / 100)) ''2024-01-01'',
               AddOrder 4 ''Mouse'' (Finite 5) ''2024-01-02''])"
  have d: "?d = \<lparr>clientes = [\<lparr>c_id = 1, c_nome = ''Ana'', c_email = Some ''a@x.com'',
                                c_telefone = Some ''111''\<rparr>],
                  pedidos = [\<lparr>p_id = 1, p_cliente_id = 1, p_produto = ''Widget'',
                               p_valor = Finite (999 / 100), p_data = ''2024-01-01''\<rparr>,
                             \<lparr>p_id = 2, p_cliente_id = 4, p_produto = ''Mouse'',
                               p_valor = Finite 5, p_data = ''2024-01-02''\<rparr>],
                  seq_clientes = 1, seq_pedidos = 2\<rparr>"
    by (simp add: run_def start_def init_db_def empty_database_def add_client_eq add_order_eq int64_def
        next_rowid_def)
  have rows: "fst (list_orders_with_clients ?d) =
     [\<lparr>j_pedido_id = 1, j_produto = ''Widget'', j_valor = Finite (999 / 100), j_data = ''2024-01-01'',
       j_cliente_id = 1, j_cliente_nome = ''Ana'', j_cliente_email = Some ''a@x.com'',
       j_cliente_telefone = Some ''111''\<rparr>]"
    unfolding d by (simp add: list_orders_with_clients_eq join_row_def)
  have dist: "distinct (map p_id (pedidos ?d))"
    unfolding d by simp
  have mem: "\<lparr>p_id = 2, p_cliente_id = 4, p_produto = ''Mouse'', p_valor = Finite 5,
               p_data = ''2024-01-02''\<rparr> \<in> set (pedidos ?d)"
    unfolding d by simp
  have orphan: "p_cliente_id \<lparr>p_id = 2, p_cliente_id = 4, p_produto = ''Mouse'', p_valor = Finite 5,
               p_data = ''2024-01-02''\<rparr> \<notin> c_id ` set (clientes ?d)"
    unfolding d by simp
  from list_orders_with_clients_live [of ?d] dist mem orphan
  have "p_id \<lparr>p_id = 2, p_cliente_id = 4, p_produto = ''Mouse'', p_valor = Finite 5,
               p_data = ''2024-01-02''\<rparr> \<notin> j_pedido_id ` set (fst (list_orders_with_clients ?d))"
    by blast
  then show ?thesis using rows by simp
qed

text \<open>
  C6. In any sequence of calls on a new database, each id that \<^verbatim>\<open>add_client\<close> returns
  is strictly greater than every id it returned before, whatever was deleted in
  between; the same holds for \<^verbatim>\<open>add_order\<close>.
\<close>

theorem issued_ids_ascending:
  "sorted_wrt (<) (issued_clientes (run cs)) \<and> sorted_wrt (<) (issued_pedidos (run cs))"
  using consistent_run [of cs] by (simp add: consistent_def)

theorem issued_ids_ascending_witness:
  "issued_clientes (run [AddClient ''C1'' None None, AddClient ''C2'' None None,
                         AddClient ''C3'' None None, DeleteClient 3,
                         AddClient ''C4'' None None]) = [1, 2, 3, 4] \<and>
   map c_id (fst (get_clients (db (run [AddClient ''C1'' None None, AddClient ''C2'' None None,
                         AddClient ''C3'' None None, DeleteClient 3,
                         AddClient ''C4'' None None])))) = [1, 2, 4] \<and>
   sorted_wrt (<) (issued_clientes (run [AddClient ''C1'' None None, AddClient ''C2'' None None,
                         AddClient ''C3'' None None, DeleteClient 3,
                         AddClient ''C4'' None None]))"
  using issued_ids_ascending [of "[AddClient ''C1'' None None, AddClient ''C2'' None None,
                         AddClient ''C3'' None None, DeleteClient 3,
                         AddClient ''C4'' None None]"]
  by (simp add: run_def start_def init_db_def empty_database_def add_client_eq delete_client_eq
      get_clients_eq next_rowid_def)



text \<open>
  C8. In a state whose ids are primary keys, \<^verbatim>\<open>get_clients()\<close> returns the stored
  clients, each once, in strictly ascending order of id, and \<^verbatim>\<open>get_orders()\<close> the
  stored orders likewise. Every state that calls on a new database reach is such a
  state (\<open>primary_keys_run\<close>).
\<close>

theorem get_clients_get_orders_sorted:
  assumes "primary_keys d"
  shows "mset (fst (get_clients d)) = mset (clientes d) \<and>
         sorted_wrt (<) (map c_id (fst (get_clients d))) \<and>
         mset (fst (get_orders d)) = mset (pedidos d) \<and>
         sorted_wrt (<) (map p_id (fst (get_orders d)))"
proof -
  have "distinct (map c_id (sort_key c_id (clientes d)))"
    using assms mset_eq_imp_distinct_iff [of "map c_id (sort_key c_id (clientes d))" "map c_id (clientes d)"]
    by (simp add: primary_keys_def)
  then have c: "sorted_wrt (<) (map c_id (sort_key c_id (clientes d)))"
    by (simp add: strict_sorted_iff)
  have "distinct (map p_id (sort_key p_id (pedidos d)))"
    using assms mset_eq_imp_distinct_iff [of "map p_id (sort_key p_id (pedidos d))" "map p_id (pedidos d)"]
    by (simp add: primary_keys_def)
  then have p: "sorted_wrt (<) (map p_id (sort_key p_id (pedidos d)))"
    by (simp add: strict_sorted_iff)
  show ?thesis using c p by (simp add: get_clients_eq get_orders_eq)
qed

theorem get_clients_get_orders_sorted_witness:
  "primary_keys
     \<lparr>clientes = [\<lparr>c_id = 2, c_nome = ''Bia'', c_email = None, c_telefone = None\<rparr>,
                  \<lparr>c_id = 1, c_nome = ''Ana'', c_email = None, c_telefone = None\<rparr>],
       pedidos = [\<lparr>p_id = 3, p_cliente_id = 1, p_produto = ''Mouse'', p_valor = Finite 5,
                    p_data = ''2024-01-02''\<rparr>,
                  \<lparr>p_id = 1, p_cliente_id = 2, p_produto = ''Widget'', p_valor = Finite 2,
                    p_data = ''2024-01-01''\<rparr>],
       seq_clientes = 2, seq_pedidos = 3\<rparr> \<and>
   map c_id (fst (get_clients
     \<lparr>clientes = [\<lparr>c_id = 2, c_nome = ''Bia'', c_email = None, c_telefone = None\<rparr>,
                  \<lparr>c_id = 1, c_nome = ''Ana'', c_email = None, c_telefone = None\<rparr>],
       pedidos = [\<lparr>p_id = 3, p_cliente_id = 1, p_produto = ''Mouse'', p_valor = Finite 5,
                    p_data = ''2024-01-02''\<rparr>,
                  \<lparr>p_id = 1, p_cliente_id = 2, p_produto = ''Widget'', p_valor = Finite 2,
                    p_data = ''2024-01-01''\<rparr>],
       seq_clientes = 2, seq_pedidos = 3\<rparr>)) = [1, 2] \<and>
   sorted_wrt (<) (map p_id (fst (get_orders
     \<lparr>clientes = [\<lparr>c_id = 2, c_nome = ''Bia'', c_email = None, c_telefone = None\<rparr>,
                  \<lparr>c_id = 1, c_nome = ''Ana'', c_email = None, c_telefone = None\<rparr>],
       pedidos = [\<lparr>p_id = 3, p_cliente_id = 1, p_produto = ''Mouse'', p_valor = Finite 5,
                    p_data = ''2024-01-02''\<rparr>,
                  \<lparr>p_id = 1, p_cliente_id = 2, p_produto = ''Widget'', p_valor = Finite 2,
                    p_data = ''2024-01-01''\<rparr>],
       seq_clientes = 2, seq_pedidos = 3\<rparr>)))"
proof -
  let ?d = "\<lparr>clientes = [\<lparr>c_id = 2, c_nome = ''Bia'', c_email = None, c_telefone = None\<rparr>,
                  \<lparr>c_id = 1, c_nome = ''Ana'', c_email = None, c_telefone = None\<rparr>],
       pedidos = [\<lparr>p_id = 3, p_cliente_id = 1, p_produto = ''Mouse'', p_valor = Finite 5,
                    p_data = ''2024-01-02''\<rparr>,
                  \<lparr>p_id = 1, p_cliente_id = 2, p_produto = ''Widget'', p_valor = Finite 2,
                    p_data = ''2024-01-01''\<rparr>],
       seq_clientes = 2, seq_pedidos = 3\<rparr>"
  have pk: "primary_keys ?d" by (simp add: primary_keys_def)
  have ids: "map c_id (fst (get_clients ?d)) = [1, 2]" by (simp add: get_clients_eq)
  show ?thesis using pk ids get_clients_get_orders_sorted [OF pk] by simp
qed







lemma reads_keep_history: "list_all is_read cs \<Longrightarrow> foldl step h cs = h"
  by (induction cs arbitrary: h) (simp_all add: step_read)

text \<open>
  C10. Each of \<^verbatim>\<open>get_clients\<close>, \<^verbatim>\<open>get_client_by_id\<close>, \<^verbatim>\<open>get_orders\<close>,
  \<^verbatim>\<open>get_order_by_id\<close> and \<^verbatim>\<open>list_orders_with_clients\<close> leaves the file, both tables
  and both counters, as it was; and a sequence of such calls placed anywhere in a
  sequence of calls changes nothing of what the whole sequence reaches.
\<close>

theorem reads_leave_state:
  "snd (get_clients d) = d \<and>
   snd (get_client_by_id d i) = d \<and>
   snd (get_orders d) = d \<and>
   snd (get_order_by_id d j) = d \<and>
   snd (list_orders_with_clients d) = d \<and>
   (list_all is_read rs \<longrightarrow> foldl step h rs = h \<and> run (cs @ rs @ cs') = run (cs @ cs'))"
  by (simp add: get_clients_eq get_client_by_id_eq get_orders_eq get_order_by_id_eq
      list_orders_with_clients_eq run_def reads_keep_history)

theorem reads_leave_state_witness:
  "list_all is_read [GetClients, GetClientById 1, GetOrders, GetOrderById 1, ListOrdersWithClients] \<and>
   run ([AddClient ''Ana'' None None, AddOrder 1 ''Widget'' (Finite 2) ''2024-01-01''] @
        [GetClients, GetClientById 1, GetOrders, GetOrderById 1, ListOrdersWithClients] @
        [DeleteOrder 1]) =
   run ([AddClient ''Ana'' None None, AddOrder 1 ''Widget'' (Finite 2) ''2024-01-01''] @ [DeleteOrder 1]) \<and>
   db (run [AddClient ''Ana'' None None, AddOrder 1 ''Widget'' (Finite 2) ''2024-01-01'', GetClients,
            GetClientById 1, GetOrders, GetOrderById 1, ListOrdersWithClients]) =
     \<lparr>clientes = [\<lparr>c_id = 1, c_nome = ''Ana'', c_email = None, c_telefone = None\<rparr>],
       pedidos = [\<lparr>p_id = 1, p_cliente_id = 1, p_produto = ''Widget'', p_valor = Finite 2,
                    p_data = ''2024-01-01''\<rparr>],
       seq_clientes = 1, seq_pedidos = 1\<rparr>"
proof -
  have r: "list_all is_read [GetClients, GetClientById 1, GetOrders, GetOrderById 1, ListOrdersWithClients]"
    by simp
  have e: "db (run [AddClient ''Ana'' None None, AddOrder 1 ''Widget'' (Finite 2) ''2024-01-01'', GetClients,
            GetClientById 1, GetOrders, GetOrderById 1, ListOrdersWithClients]) =
     \<lparr>clientes = [\<lparr>c_id = 1, c_nome = ''Ana'', c_email = None, c_telefone = None\<rparr>],
       pedidos = [\<lparr>p_id = 1, p_cliente_id = 1, p_produto = ''Widget'', p_valor = Finite 2,
                    p_data = ''2024-01-01''\<rparr>],
       seq_clientes = 1, seq_pedidos = 1\<rparr>"
    by (simp add: run_def start_def init_db_def empty_database_def add_client_eq add_order_eq int64_def
        get_clients_eq get_client_by_id_eq get_orders_eq get_order_by_id_eq
        list_orders_with_clients_eq next_rowid_def)
  from reads_leave_state
    [of _ _ _ "[GetClients, GetClientById 1, GetOrders, GetOrderById 1, ListOrdersWithClients]" _
      "[AddClient ''Ana'' None None, AddOrder 1 ''Widget'' (Finite 2) ''2024-01-01'']" "[DeleteOrder 1]"] r
  have "run ([AddClient ''Ana'' None None, AddOrder 1 ''Widget'' (Finite 2) ''2024-01-01''] @
        [GetClients, GetClientById 1, GetOrders, GetOrderById 1, ListOrdersWithClients] @
        [DeleteOrder 1]) =
   run ([AddClient ''Ana'' None None, AddOrder 1 ''Widget'' (Finite 2) ''2024-01-01''] @ [DeleteOrder 1])"
    by blast
  with r e show ?thesis by blast
qed

end
